theory Spec2Isabelle
  imports Complex_Main "HOL-Library.Sublist"
begin

section \<open>The requirements manifest\<close>

text \<open>
  The requirements file is a list of lines. Comment lines and blank lines carry no entry
  and are left out; the commented-out \<^verbatim>\<open>#mlagents==0.28.0\<close> is such a comment. An entry is
  either the include \<^verbatim>\<open>-r file\<close> or a requirement: the package name, its extras in
  brackets, the version specifier and the environment marker after the semicolon
  (variable, comparison, quoted version).
\<close>

datatype requirement =
    Include string
  | Requirement string "string list" string "(string \<times> string \<times> string) option"

definition requirements :: "requirement list" where
  "requirements =
    [ Include ''requirements_dl.txt'',
      Requirement ''autorom'' [''accept-rom-license''] '''' None,
      Requirement ''gym'' [] ''>=0.21.0,<0.24.0'' (Some (''python_version'', ''>='', ''3.7'')),
      Requirement ''gym'' [''atari''] ''==0.19.0'' (Some (''python_version'', ''<'', ''3.7'')),
      Requirement ''kaggle_environments'' [] ''==1.7.11'' None,
      Requirement ''mlagents_envs'' [] ''==0.28.0'' None,
      Requirement ''pettingzoo'' [] ''==1.15.0'' (Some (''python_version'', ''>='', ''3.7'')),
      Requirement ''pymunk'' [] ''==6.0.0'' None,
      Requirement ''supersuit'' [] ''==3.3.3'' (Some (''python_version'', ''>='', ''3.7'')),
      Requirement ''pybullet'' [] ''==3.2.0'' None,
      Requirement ''recsim'' [] ''==0.2.4'' None,
      Requirement ''tensorflow_estimator'' [] ''==2.9.0'' None,
      Requirement ''open-spiel'' [] ''==1.0.2'' None,
      Requirement ''higher'' [] ''==0.2.1'' None,
      Requirement ''pyglet'' [] ''==1.5.26'' None,
      Requirement ''imageio-ffmpeg'' [] ''==0.4.5'' None,
      Requirement ''starlette'' [] ''==0.20.1'' None,
      Requirement ''onnx'' [] ''==1.9.0'' None,
      Requirement ''onnxruntime'' [] ''==1.9.0'' None,
      Requirement ''tf2onnx'' [] ''==1.8.5'' None ]"

fun package :: "requirement \<Rightarrow> string option" where
  "package (Include f) = None"
| "package (Requirement p extras spec marker) = Some p"

definition packages :: "requirement list \<Rightarrow> string list" where
  "packages rs = List.map_filter package rs"


section \<open>The build manifest\<close>

text \<open>
  A \<^verbatim>\<open>py_test(...)\<close> declaration with its keyword arguments; \<^verbatim>\<open>main\<close> and
  \<^verbatim>\<open>args\<close> are optional in the manifest (absent: \<open>None\<close>, \<open>[]\<close>). The field
  \<^verbatim>\<open>size\<close> is named \<open>size_attr\<close> here.
\<close>

record py_test =
  name :: string
  size_attr :: string
  main :: "string option"
  srcs :: "string list"
  tags :: "string list"
  deps :: "string list"
  args :: "string list"

text \<open>The section headed "Tests from the python/ray/train/examples directory".\<close>

definition examples_section :: "py_test list" where
  "examples_section =
    [ \<lparr>name = ''mlflow_fashion_mnist_example'', size_attr = ''medium'',
       main = Some ''examples/mlflow_fashion_mnist_example.py'',
       srcs = [''examples/mlflow_fashion_mnist_example.py''],
       tags = [''team:ml'', ''exclusive''], deps = ['':train_lib''],
       args = [''--smoke-test'']\<rparr>,
      \<lparr>name = ''mlflow_simple_example'', size_attr = ''medium'',
       main = Some ''examples/mlflow_simple_example.py'',
       srcs = [''examples/mlflow_simple_example.py''],
       tags = [''team:ml'', ''exclusive'', ''no_main''], deps = ['':train_lib''],
       args = []\<rparr>,
      \<lparr>name = ''tensorflow_quick_start'', size_attr = ''medium'',
       main = Some ''examples/tensorflow_quick_start.py'',
       srcs = [''examples/tensorflow_quick_start.py''],
       tags = [''team:ml'', ''exclusive''], deps = ['':train_lib''],
       args = []\<rparr>,
      \<lparr>name = ''torch_quick_start'', size_attr = ''medium'',
       main = Some ''examples/torch_quick_start.py'',
       srcs = [''examples/torch_quick_start.py''],
       tags = [''team:ml'', ''exclusive''], deps = ['':train_lib''],
       args = []\<rparr>,
      \<lparr>name = ''torch_tensorboard_profiler_example'', size_attr = ''small'',
       main = Some ''examples/torch_tensorboard_profiler_example.py'',
       srcs = [''examples/torch_tensorboard_profiler_example.py''],
       tags = [''team:ml'', ''exclusive''], deps = ['':train_lib''],
       args = []\<rparr>,
      \<lparr>name = ''transformers_example'', size_attr = ''large'',
       main = Some ''examples/transformers/transformers_example.py'',
       srcs = [''examples/transformers/transformers_example.py''],
       tags = [''team:ml'', ''exclusive'', ''tune''], deps = ['':train_lib''],
       args = [''--model_name_or_path=bert-base-cased'', ''--task_name=mrpc'',
               ''--max_length=32'', ''--per_device_train_batch_size=64'',
               ''--max_train_steps=2'', ''--start_local'', ''--num_workers=2'']\<rparr>,
      \<lparr>name = ''tune_cifar_pytorch_pbt_example'', size_attr = ''medium'',
       main = Some ''examples/tune_cifar_pytorch_pbt_example.py'',
       srcs = [''examples/tune_cifar_pytorch_pbt_example.py''],
       tags = [''team:ml'', ''exclusive'', ''pytorch'', ''tune''], deps = ['':train_lib''],
       args = [''--smoke-test'']\<rparr>,
      \<lparr>name = ''tune_linear_dataset_example'', size_attr = ''medium'',
       main = Some ''examples/tune_linear_dataset_example.py'',
       srcs = [''examples/tune_linear_dataset_example.py''],
       tags = [''team:ml'', ''exclusive'', ''gpu_only'', ''tune''], deps = ['':train_lib''],
       args = [''--smoke-test'', ''--use-gpu'']\<rparr>,
      \<lparr>name = ''tune_linear_example'', size_attr = ''medium'',
       main = Some ''examples/tune_linear_example.py'',
       srcs = [''examples/tune_linear_example.py''],
       tags = [''team:ml'', ''exclusive'', ''tune''], deps = ['':train_lib''],
       args = [''--smoke-test'']\<rparr> ]"

text \<open>The section headed "Tests from the python/ray/train/tests directory".\<close>

definition tests_section :: "py_test list" where
  "tests_section =
    [ \<lparr>name = ''pytorch_pbt_failure'', size_attr = ''medium'', main = None,
       srcs = [''tests/pytorch_pbt_failure.py''],
       tags = [''team:ml'', ''exlusive'', ''no_main''], deps = ['':train_lib''],
       args = [''--smoke-test'']\<rparr>,
      \<lparr>name = ''test_backend'', size_attr = ''large'', main = None,
       srcs = [''tests/test_backend.py''],
       tags = [''team:ml'', ''exclusive''], deps = ['':train_lib''], args = []\<rparr>,
      \<lparr>name = ''test_callbacks'', size_attr = ''medium'', main = None,
       srcs = [''tests/test_callbacks.py''],
       tags = [''team:ml'', ''exclusive''], deps = ['':train_lib''], args = []\<rparr>,
      \<lparr>name = ''test_examples'', size_attr = ''large'', main = None,
       srcs = [''tests/test_examples.py''],
       tags = [''team:ml'', ''exclusive''], deps = ['':train_lib''], args = []\<rparr>,
      \<lparr>name = ''test_gpu'', size_attr = ''large'', main = None,
       srcs = [''tests/test_gpu.py''],
       tags = [''team:ml'', ''exclusive'', ''gpu_only''], deps = ['':train_lib''],
       args = []\<rparr>,
      \<lparr>name = ''test_minimal'', size_attr = ''small'', main = None,
       srcs = [''tests/test_minimal.py''],
       tags = [''team:ml'', ''exclusive'', ''minimal''], deps = ['':train_lib''],
       args = []\<rparr>,
      \<lparr>name = ''test_session'', size_attr = ''small'', main = None,
       srcs = [''tests/test_session.py''],
       tags = [''team:ml'', ''exclusive''], deps = ['':train_lib''], args = []\<rparr>,
      \<lparr>name = ''test_results_preprocessors'', size_attr = ''small'', main = None,
       srcs = [''tests/test_results_preprocessors.py''],
       tags = [''team:ml'', ''exclusive''], deps = ['':train_lib''], args = []\<rparr>,
      \<lparr>name = ''test_trainer'', size_attr = ''large'', main = None,
       srcs = [''tests/test_trainer.py''],
       tags = [''team:ml'', ''exclusive''], deps = ['':train_lib''], args = []\<rparr>,
      \<lparr>name = ''test_tune'', size_attr = ''medium'', main = None,
       srcs = [''tests/test_tune.py''],
       tags = [''team:ml'', ''exclusive'', ''tune''], deps = ['':train_lib''],
       args = []\<rparr>,
      \<lparr>name = ''test_utils'', size_attr = ''small'', main = None,
       srcs = [''tests/test_utils.py''],
       tags = [''team:ml'', ''exclusive''], deps = ['':train_lib''], args = []\<rparr>,
      \<lparr>name = ''test_worker_group'', size_attr = ''medium'', main = None,
       srcs = [''tests/test_worker_group.py''],
       tags = [''team:ml'', ''exclusive''], deps = ['':train_lib''], args = []\<rparr> ]"

text \<open>The manifest's \<^verbatim>\<open>py_test\<close> declarations, in file order.\<close>

definition py_tests :: "py_test list" where
  "py_tests = examples_section @ tests_section"

text \<open>A target lies under a directory when each of its \<^verbatim>\<open>srcs\<close> paths starts with it.\<close>

definition srcs_under :: "string \<Rightarrow> py_test \<Rightarrow> bool" where
  "srcs_under dir t = list_all (prefix dir) (srcs t)"

definition depends_on :: "string \<Rightarrow> py_test \<Rightarrow> bool" where
  "depends_on lib t = (lib \<in> set (deps t))"


section \<open>Values of the notebooks\<close>

text \<open>
  The example code has one \<^verbatim>\<open>raise\<close> statement (a \<^verbatim>\<open>RuntimeError\<close>). Two failures of
  Python and pandas are decided by the example code alone and are kept as branches:
  the \<^verbatim>\<open>KeyError\<close> of \<^verbatim>\<open>DataFrame.drop\<close> on a label that is not a column, and the
  \<^verbatim>\<open>TypeError\<close> of calling \<^verbatim>\<open>None\<close>.
\<close>

datatype error = RuntimeError string | KeyError string | TypeError string

text \<open>
  A pandas data frame: the row labels and the columns in order, each column a label with
  one value per row. Frames of mixed columns hold cells; the frames of predictions hold
  reals, the thresholded ones booleans and then integers.
\<close>

datatype cell = FloatV real | IntV int | StrV string

record 'a frame =
  index :: "nat list"
  columns :: "(string \<times> 'a list) list"

text \<open>A Ray dataset is the list of the frames (batches of rows) it is cut into.\<close>

type_synonym 'a dataset = "'a frame list"

text \<open>
  What \<^verbatim>\<open>load_breast_cancer()\<close> returns: the feature matrix (held by columns, one list of
  \<^verbatim>\<open>n_samples\<close> values for each feature), the feature names and the labels; with
  \<^verbatim>\<open>as_frame=True\<close> the features are a data frame and the labels a series.
\<close>

record bunch =
  data :: "real list list"
  feature_names :: "string list"
  target :: "int list"

record bunch_frame =
  data_frame :: "cell frame"
  target_series :: "cell list"

datatype checkpoint = Checkpoint nat

record result =
  metrics :: "(string \<times> real) list"
  checkpoint :: checkpoint

datatype estimator = RandomForestClassifier | CuMLRandomForestClassifier

datatype preprocessor =
    OrdinalEncoder "string list"
  | StandardScaler "string list"
  | Chain "preprocessor list"

datatype conf = ConfInt int | ConfStr string | ConfDict "(string \<times> conf) list"

datatype callback = WandbLoggerCallback (project: string) (save_checkpoints: bool)

record run_config =
  callbacks :: "callback list"

record base_trainer =
  scaling_config :: "(string \<times> conf) list"
  label_column :: string
  datasets :: "(string \<times> cell dataset) list"

record sklearn_trainer = base_trainer +
  estimator :: estimator
  preprocessor :: preprocessor
  cv :: nat

record xgboost_trainer = base_trainer +
  params :: "(string \<times> conf) list"
  num_boost_round :: nat
  run_config :: run_config

datatype trainer = SklearnTrainer sklearn_trainer | XGBoostTrainer xgboost_trainer

datatype predictor_class = SklearnPredictor

record batch_predictor =
  from_checkpoint_arg :: checkpoint
  predictor_cls :: predictor_class

text \<open>
  The outside world of the notebooks: a state of the libraries (random generator, cluster,
  tracking service) that only they read and advance, and the log of the calls made into
  them and of what was printed. A \<open>Predict\<close> event records the dataset it returned.
\<close>

datatype printed = Metrics "(string \<times> real) list" | PredictedLabels "int frame"

datatype event =
    LoadBreastCancer bool
  | TrainTestSplit real
  | FromPandas "cell frame"
  | Fit trainer
  | Predict batch_predictor "cell dataset" int "real dataset"
  | Print printed

record 's world =
  ext :: 's
  log :: "event list"

text \<open>
  The libraries the notebooks call, as parameters: the loaded data, the random split
  (row positions of the train and of the test part, for a number of rows and a test
  size), \<^verbatim>\<open>trainer.fit()\<close> and the batch predictor's \<^verbatim>\<open>predict\<close>. They are arbitrary
  functions of their arguments and of the library state, and each returns: a failure
  inside scikit-learn, pandas or Ray on ill-shaped data or a broken cluster is not an
  error of the example code and has no branch here. The module-level name
  \<^verbatim>\<open>cuMLRandomForestClassifier\<close> is the imported class or \<open>None\<close>.
\<close>

record 's environment =
  cuMLRandomForestClassifier :: "estimator option"
  load_breast_cancer :: bunch
  load_breast_cancer_as_frame :: bunch_frame
  shuffle_split :: "nat \<Rightarrow> real \<Rightarrow> 's \<Rightarrow> (nat list \<times> nat list) \<times> 's"
  trainer_fit :: "trainer \<Rightarrow> 's \<Rightarrow> result \<times> 's"
  predictor_predict :: "batch_predictor \<Rightarrow> cell dataset \<Rightarrow> int \<Rightarrow> 's \<Rightarrow> real dataset \<times> 's"


section \<open>pandas and Ray operations\<close>

definition emit :: "event \<Rightarrow> 's world \<Rightarrow> 's world" where
  "emit e w = w\<lparr>log := log w @ [e]\<rparr>"

definition column_names :: "'a frame \<Rightarrow> string list" where
  "column_names df = map fst (columns df)"

text \<open>\<^verbatim>\<open>df[c]\<close>: the column labelled \<open>c\<close>, if there is one.\<close>

definition column :: "'a frame \<Rightarrow> string \<Rightarrow> 'a list option" where
  "column df c = map_of (columns df) c"

text \<open>
  \<^verbatim>\<open>pd.DataFrame(data, columns=names)\<close> on a matrix: a fresh range index and the named
  columns.
\<close>

definition DataFrame :: "real list list \<Rightarrow> string list \<Rightarrow> cell frame" where
  "DataFrame cols names =
     \<lparr>index = [0..<(case cols of [] \<Rightarrow> 0 | c # _ \<Rightarrow> length c)],
      columns = zip names (map (map FloatV) cols)\<rparr>"

definition len :: "'a frame \<Rightarrow> nat" where
  "len df = length (index df)"

text \<open>
  \<^verbatim>\<open>df[c] = values\<close>: an existing label has its values replaced in place, a new label is
  appended as the last column. At the call sites the values carry the frame's own range
  index, so that pandas' alignment by label is alignment by position.
\<close>

definition setitem :: "'a frame \<Rightarrow> string \<Rightarrow> 'a list \<Rightarrow> 'a frame" where
  "setitem df c vs =
     (if c \<in> set (column_names df)
      then df\<lparr>columns := map (\<lambda>(k, ws). if k = c then (k, vs) else (k, ws)) (columns df)\<rparr>
      else df\<lparr>columns := columns df @ [(c, vs)]\<rparr>)"

text \<open>\<^verbatim>\<open>df.drop(c, axis=1)\<close>: a new frame without the columns labelled \<open>c\<close>.\<close>

definition drop_axis1 :: "'a frame \<Rightarrow> string \<Rightarrow> error + 'a frame" where
  "drop_axis1 df c =
     (if c \<in> set (column_names df)
      then Inr (df\<lparr>columns := filter (\<lambda>(k, ws). k \<noteq> c) (columns df)\<rparr>)
      else Inl (KeyError c))"

text \<open>
  \<^verbatim>\<open>df.iloc[rows]\<close>: the rows at the given positions, in that order. The positions are
  those of a split, each below the number of rows.
\<close>

definition iloc :: "'a frame \<Rightarrow> nat list \<Rightarrow> 'a frame" where
  "iloc df rows =
     \<lparr>index = map (\<lambda>i. index df ! i) rows,
      columns = map (\<lambda>(c, vs). (c, map (\<lambda>i. vs ! i) rows)) (columns df)\<rparr>"

text \<open>An elementwise operation keeps labels and shape.\<close>

definition frame_map :: "('a \<Rightarrow> 'b) \<Rightarrow> 'a frame \<Rightarrow> 'b frame" where
  "frame_map f df = \<lparr>index = index df, columns = map (\<lambda>(c, vs). (c, map f vs)) (columns df)\<rparr>"

text \<open>
  \<^verbatim>\<open>df > x\<close> on a frame of numbers, compared exactly, and \<^verbatim>\<open>.astype(int)\<close> on a frame
  of booleans.
\<close>

definition gt :: "real frame \<Rightarrow> real \<Rightarrow> bool frame" where
  "gt df x = frame_map (\<lambda>v. v > x) df"

definition astype_int :: "bool frame \<Rightarrow> int frame" where
  "astype_int df = frame_map (\<lambda>b. if b then 1 else 0) df"

text \<open>The values of a frame, column after column.\<close>

definition entries :: "'a frame \<Rightarrow> 'a list" where
  "entries df = concat (map snd (columns df))"

text \<open>
  \<^verbatim>\<open>Dataset.map_batches(fn, batch_format="pandas")\<close> applies \<open>fn\<close> to each batch;
  \<^verbatim>\<open>Dataset.to_pandas(limit=float("inf"))\<close> puts the batches of one dataset, which share
  their columns, below one another, with no limit on the number of rows.
\<close>

definition map_batches :: "('a frame \<Rightarrow> 'b frame) \<Rightarrow> 'a dataset \<Rightarrow> 'b dataset" where
  "map_batches fn ds = map fn ds"

definition append_rows :: "'a frame \<Rightarrow> 'a frame \<Rightarrow> 'a frame" where
  "append_rows a b =
     \<lparr>index = index a @ index b,
      columns = map (\<lambda>((c, vs), (c', ws)). (c, vs @ ws)) (zip (columns a) (columns b))\<rparr>"

fun to_pandas :: "'a dataset \<Rightarrow> 'a frame" where
  "to_pandas [] = \<lparr>index = [], columns = []\<rparr>"
| "to_pandas [b] = b"
| "to_pandas (b # bs) = append_rows b (to_pandas bs)"

definition from_pandas :: "cell frame \<Rightarrow> 's world \<Rightarrow> cell dataset \<times> 's world" where
  "from_pandas df w = ([df], emit (FromPandas df) w)"

definition from_checkpoint :: "checkpoint \<Rightarrow> predictor_class \<Rightarrow> batch_predictor" where
  "from_checkpoint ckpt cls = \<lparr>from_checkpoint_arg = ckpt, predictor_cls = cls\<rparr>"

definition load :: "'s environment \<Rightarrow> 's world \<Rightarrow> bunch \<times> 's world" where
  "load env w = (load_breast_cancer env, emit (LoadBreastCancer False) w)"

definition load_as_frame :: "'s environment \<Rightarrow> 's world \<Rightarrow> bunch_frame \<times> 's world" where
  "load_as_frame env w = (load_breast_cancer_as_frame env, emit (LoadBreastCancer True) w)"

definition train_test_split ::
  "'s environment \<Rightarrow> 'a frame \<Rightarrow> real \<Rightarrow> 's world \<Rightarrow> ('a frame \<times> 'a frame) \<times> 's world" where
  "train_test_split env df test_size w =
     (let ((train_rows, test_rows), s) = shuffle_split env (len df) test_size (ext w)
      in ((iloc df train_rows, iloc df test_rows), emit (TrainTestSplit test_size) (w\<lparr>ext := s\<rparr>)))"

definition fit :: "'s environment \<Rightarrow> trainer \<Rightarrow> 's world \<Rightarrow> result \<times> 's world" where
  "fit env t w =
     (let (r, s) = trainer_fit env t (ext w) in (r, emit (Fit t) (w\<lparr>ext := s\<rparr>)))"

definition predict ::
  "'s environment \<Rightarrow> batch_predictor \<Rightarrow> cell dataset \<Rightarrow> int \<Rightarrow> 's world \<Rightarrow> real dataset \<times> 's world" where
  "predict env bp ds num_gpus_per_worker w =
     (let (preds, s) = predictor_predict env bp ds num_gpus_per_worker (ext w)
      in (preds, emit (Predict bp ds num_gpus_per_worker preds) (w\<lparr>ext := s\<rparr>)))"

definition print :: "printed \<Rightarrow> 's world \<Rightarrow> 's world" where
  "print out w = emit (Print out) w"


section \<open>The W\&B notebook\<close>

text \<open>
  \<^verbatim>\<open>get_train_dataset\<close>: load the data as a frame, store the labels as column
  \<^verbatim>\<open>"target"\<close>, hand the frame to Ray.
\<close>

definition get_train_dataset :: "'s environment \<Rightarrow> 's world \<Rightarrow> (error + cell dataset) \<times> 's world" where
  "get_train_dataset env w0 =
     (let (data_raw, w1) = load_as_frame env w0;
          df = data_frame data_raw;
          df = setitem df ''target'' (target_series data_raw);
          (ds, w2) = from_pandas df w1
      in (Inr ds, w2))"

text \<open>\<^verbatim>\<open>train_model\<close>: build the XGBoost trainer with the W\&B callback, fit, return the result.\<close>

definition train_model ::
  "'s environment \<Rightarrow> cell dataset \<Rightarrow> string \<Rightarrow> 's world \<Rightarrow> (error + result) \<times> 's world" where
  "train_model env train_dataset wandb_project w0 =
     (let trainer = XGBoostTrainer
            \<lparr>scaling_config = [(''num_workers'', ConfInt 2)],
             label_column = ''target'',
             datasets = [(''train'', train_dataset)],
             params = [(''tree_method'', ConfStr ''auto'')],
             num_boost_round = 10,
             run_config = \<lparr>callbacks = [WandbLoggerCallback wandb_project True]\<rparr>\<rparr>;
          (result, w1) = fit env trainer w0
      in (Inr result, w1))"


section \<open>The Sklearn notebook\<close>

text \<open>
  \<^verbatim>\<open>prepare_data\<close>. The categorical column is
  \<^verbatim>\<open>(["A", "B"] * math.ceil(num_samples / 2))[:num_samples]\<close>; the test size is \<open>0.3\<close>.
\<close>

definition prepare_data ::
  "'s environment \<Rightarrow> 's world \<Rightarrow> (error + cell dataset \<times> cell dataset \<times> cell dataset) \<times> 's world" where
  "prepare_data env w0 =
     (let (data_raw, w1) = load env w0;
          dataset_df = DataFrame (data data_raw) (feature_names data_raw);
          dataset_df = setitem dataset_df ''target'' (map IntV (target data_raw));
          num_samples = len dataset_df;
          dataset_df = setitem dataset_df ''categorical_column''
            (map StrV (take num_samples
               (concat (replicate (nat \<lceil>real num_samples / 2\<rceil>) [''A'', ''B'']))));
          ((train_df, test_df), w2) = train_test_split env dataset_df (3 / 10) w1;
          (train_dataset, w3) = from_pandas train_df w2;
          (valid_dataset, w4) = from_pandas test_df w3
      in case drop_axis1 test_df ''target'' of
           Inl e \<Rightarrow> (Inl e, w4)
         | Inr dropped \<Rightarrow>
             (let (test_dataset, w5) = from_pandas dropped w4
              in (Inr (train_dataset, valid_dataset, test_dataset), w5)))"

text \<open>
  \<^verbatim>\<open>train_sklearn\<close>. The guard comes first; \<^verbatim>\<open>not cuMLRandomForestClassifier\<close> is true
  exactly when the name is \<open>None\<close>. In the GPU branch the class is called, which for
  \<open>None\<close> would be a \<^verbatim>\<open>TypeError\<close>. The locals \<^verbatim>\<open>estimator\<close> and \<^verbatim>\<open>preprocessor\<close>
  are \<open>the_estimator\<close> and \<open>the_preprocessor\<close> here.
\<close>

definition train_sklearn ::
  "'s environment \<Rightarrow> int \<Rightarrow> bool \<Rightarrow> 's world \<Rightarrow> (error + result) \<times> 's world" where
  "train_sklearn env num_cpus use_gpu w0 =
     (if use_gpu \<and> cuMLRandomForestClassifier env = None
      then (Inl (RuntimeError ''cuML must be installed for GPU enabled sklearn estimators.''), w0)
      else
        case prepare_data env w0 of
          (Inl e, w1) \<Rightarrow> (Inl e, w1)
        | (Inr (train_dataset, valid_dataset, _), w1) \<Rightarrow>
            (let columns_to_scale = [''mean radius'', ''mean texture''];
                 the_preprocessor = Chain [OrdinalEncoder [''categorical_column''],
                                       StandardScaler columns_to_scale]
             in case (if use_gpu
                      then (case cuMLRandomForestClassifier env of
                              None \<Rightarrow> Inl (TypeError ''NoneType object is not callable'')
                            | Some cls \<Rightarrow> Inr ([(''CPU'', ConfInt 1), (''GPU'', ConfInt 1)], cls))
                      else Inr ([(''CPU'', ConfInt num_cpus)], RandomForestClassifier)) of
                  Inl e \<Rightarrow> (Inl e, w1)
                | Inr (trainer_resources, the_estimator) \<Rightarrow>
                    (let trainer = SklearnTrainer
                           \<lparr>scaling_config = [(''trainer_resources'', ConfDict trainer_resources)],
                            label_column = ''target'',
                            datasets = [(''train'', train_dataset), (''valid'', valid_dataset)],
                            estimator = the_estimator,
                            preprocessor = the_preprocessor,
                            cv = 5\<rparr>;
                         (result, w2) = fit env trainer w1;
                         w3 = print (Metrics (metrics result)) w2
                     in (Inr result, w3))))"

text \<open>
  The table \<^verbatim>\<open>predict_sklearn\<close> prints, from the dataset the batch predictor returned:
  \<^verbatim>\<open>.map_batches(lambda df: (df > 0.5).astype(int), batch_format="pandas")
   .to_pandas(limit=float("inf"))\<close>.
\<close>

definition predicted_labels :: "real dataset \<Rightarrow> int frame" where
  "predicted_labels predictions =
     to_pandas (map_batches (\<lambda>df. astype_int (gt df (1 / 2))) predictions)"

text \<open>\<^verbatim>\<open>predict_sklearn\<close>; \<^verbatim>\<open>int(use_gpu)\<close> is 1 or 0. It returns \<open>None\<close>.\<close>

definition predict_sklearn ::
  "'s environment \<Rightarrow> result \<Rightarrow> bool \<Rightarrow> 's world \<Rightarrow> (error + unit) \<times> 's world" where
  "predict_sklearn env result use_gpu w0 =
     (case prepare_data env w0 of
        (Inl e, w1) \<Rightarrow> (Inl e, w1)
      | (Inr (_, _, test_dataset), w1) \<Rightarrow>
          (let batch_predictor = from_checkpoint (checkpoint result) SklearnPredictor;
               (predictions, w2) = predict env batch_predictor test_dataset (of_bool use_gpu) w1
           in (Inr (), print (PredictedLabels (predicted_labels predictions)) w2)))"


section \<open>A small environment to run the notebooks in\<close>

text \<open>
  Four samples with two features; the library state is a counter that each random or
  remote call advances. The split sends rows 1 and 3 to training and rows 2 and 0 to
  testing; fitting stores its checkpoint under the counter; the predictor returns two
  batches.
\<close>

definition toy_bunch :: bunch where
  "toy_bunch =
     \<lparr>data = [[17.99, 20.57, 19.69, 11.42], [10.38, 17.77, 21.25, 20.38]],
      feature_names = [''mean radius'', ''mean texture''],
      target = [0, 0, 0, 1]\<rparr>"

definition toy_env :: "estimator option \<Rightarrow> nat environment" where
  "toy_env cuml =
     \<lparr>cuMLRandomForestClassifier = cuml,
      load_breast_cancer = toy_bunch,
      load_breast_cancer_as_frame =
        \<lparr>data_frame = DataFrame (data toy_bunch) (feature_names toy_bunch),
         target_series = map IntV (target toy_bunch)\<rparr>,
      shuffle_split = (\<lambda>n test_size s. (([1, 3], [2, 0]), Suc s)),
      trainer_fit = (\<lambda>t s. (\<lparr>metrics = [(''fit_time'', 2.5)], checkpoint = Checkpoint s\<rparr>, Suc s)),
      predictor_predict = (\<lambda>bp ds g s.
        ([\<lparr>index = [0], columns = [(''predictions'', [0.9])]\<rparr>,
          \<lparr>index = [1], columns = [(''predictions'', [0.5])]\<rparr>], Suc s))\<rparr>"

definition toy_world :: "nat world" where
  "toy_world = \<lparr>ext = 0, log = []\<rparr>"


text \<open>What \<open>prepare_data\<close> computes on the toy environment.\<close>

definition toy_train_df :: "cell frame" where
  "toy_train_df =
     \<lparr>index = [1, 3],
      columns = [(''mean radius'', [FloatV 20.57, FloatV 11.42]),
                 (''mean texture'', [FloatV 17.77, FloatV 20.38]),
                 (''target'', [IntV 0, IntV 1]),
                 (''categorical_column'', [StrV ''B'', StrV ''B''])]\<rparr>"

definition toy_valid_df :: "cell frame" where
  "toy_valid_df =
     \<lparr>index = [2, 0],
      columns = [(''mean radius'', [FloatV 19.69, FloatV 17.99]),
                 (''mean texture'', [FloatV 21.25, FloatV 10.38]),
                 (''target'', [IntV 0, IntV 0]),
                 (''categorical_column'', [StrV ''A'', StrV ''A''])]\<rparr>"

definition toy_test_df :: "cell frame" where
  "toy_test_df =
     \<lparr>index = [2, 0],
      columns = [(''mean radius'', [FloatV 19.69, FloatV 17.99]),
                 (''mean texture'', [FloatV 21.25, FloatV 10.38]),
                 (''categorical_column'', [StrV ''A'', StrV ''A''])]\<rparr>"

definition toy_prepared :: "nat world" where
  "toy_prepared =
     \<lparr>ext = 1,
      log = [LoadBreastCancer False, TrainTestSplit (3 / 10), FromPandas toy_train_df,
             FromPandas toy_valid_df, FromPandas toy_test_df]\<rparr>"

definition toy_result :: result where
  "toy_result = \<lparr>metrics = [], checkpoint = Checkpoint 7\<rparr>"

text \<open>
  For the proofs: the frame \<open>prepare_data\<close> has built when it reaches the split, as a
  function of the loaded data.
\<close>

definition labelled_frame :: "bunch \<Rightarrow> cell frame" where
  "labelled_frame data_raw =
     (let dataset_df = DataFrame (data data_raw) (feature_names data_raw);
          dataset_df = setitem dataset_df ''target'' (map IntV (target data_raw));
          num_samples = len dataset_df
      in setitem dataset_df ''categorical_column''
            (map StrV (take num_samples
               (concat (replicate (nat \<lceil>real num_samples / 2\<rceil>) [''A'', ''B''])))))"


section \<open>Facts about frames and the log\<close>

lemma log_emit: "log (emit e w) = log w @ [e]"
  by (simp add: emit_def)

lemma column_names_setitem:
  "column_names (setitem df c vs) =
     (if c \<in> set (column_names df) then column_names df else column_names df @ [c])"
  by (auto simp: setitem_def column_names_def split: prod.splits intro!: map_idI)

lemma column_names_iloc: "column_names (iloc df rows) = column_names df"
  by (simp add: iloc_def column_names_def split_def comp_def)

lemma train_test_split_names:
  assumes "train_test_split env df test_size w = ((train_df, test_df), w')"
  shows "column_names train_df = column_names df" and "column_names test_df = column_names df"
  using assms
  by (auto simp: train_test_split_def Let_def column_names_iloc split: prod.splits)

lemma target_in_labelled_frame: "''target'' \<in> set (column_names (labelled_frame b))"
  by (simp add: labelled_frame_def Let_def column_names_setitem)

lemma column_filter_other:
  "c \<noteq> t \<Longrightarrow> map_of (filter (\<lambda>(k, ws). k \<noteq> t) cols) c = map_of cols c"
  by (induction cols) auto

lemma map_of_append_fresh:
  "c \<notin> fst ` set cols \<Longrightarrow> map_of (cols @ [(c, vs)]) c = Some vs"
  by (induction cols) auto

lemma map_of_append_old:
  "k \<in> fst ` set cols \<Longrightarrow> map_of (cols @ extra) k = map_of cols k"
  by (induction cols) auto

lemma frame_map_append_rows:
  "frame_map f (append_rows a b) = append_rows (frame_map f a) (frame_map f b)"
  by (simp add: frame_map_def append_rows_def zip_map_map split_def)

lemma frame_map_to_pandas: "frame_map f (to_pandas ds) = to_pandas (map (frame_map f) ds)"
proof (induction ds rule: to_pandas.induct)
  case 1
  show ?case by (simp add: frame_map_def)
next
  case (2 b)
  show ?case by simp
next
  case (3 b v va)
  then show ?case by (simp add: frame_map_append_rows)
qed

lemma threshold_batch:
  "astype_int (gt df (1 / 2)) = frame_map (\<lambda>x. if x > 1 / 2 then 1 else 0) df"
  by (simp add: astype_int_def gt_def frame_map_def comp_def split_def)

lemma predicted_labels_eq:
  "predicted_labels preds = frame_map (\<lambda>x. if x > 1 / 2 then 1 else 0) (to_pandas preds)"
  by (simp add: predicted_labels_def map_batches_def threshold_batch frame_map_to_pandas)

lemma entries_frame_map: "entries (frame_map f df) = map f (entries df)"
  by (simp add: entries_def frame_map_def map_concat comp_def split_def)


section \<open>\<open>prepare_data\<close> always returns\<close>

text \<open>
  The split keeps the column labels, so the test frame still has the \<^verbatim>\<open>"target"\<close> column
  that was stored before the split, and \<^verbatim>\<open>drop\<close> finds it.
\<close>

lemma prepare_data_eq:
  assumes "train_test_split env (labelled_frame (load_breast_cancer env)) (3 / 10)
             (emit (LoadBreastCancer False) w) = ((train_df, test_df), w2)"
  shows "prepare_data env w =
       (Inr ([train_df], [test_df],
             [test_df\<lparr>columns := filter (\<lambda>(k, ws). k \<noteq> ''target'') (columns test_df)\<rparr>]),
        emit (FromPandas (test_df\<lparr>columns := filter (\<lambda>(k, ws). k \<noteq> ''target'') (columns test_df)\<rparr>))
          (emit (FromPandas test_df) (emit (FromPandas train_df) w2)))"
proof -
  have "''target'' \<in> set (column_names test_df)"
    using train_test_split_names(2) [OF assms] target_in_labelled_frame by simp
  then have "drop_axis1 test_df ''target'' =
      Inr (test_df\<lparr>columns := filter (\<lambda>(k, ws). k \<noteq> ''target'') (columns test_df)\<rparr>)"
    by (simp add: drop_axis1_def)
  then show ?thesis
    using assms
    by (simp add: prepare_data_def load_def from_pandas_def labelled_frame_def Let_def)
qed

lemma prepare_data_returns: "\<exists>train valid test w'. prepare_data env w = (Inr (train, valid, test), w')"
proof -
  obtain train_df test_df w2 where
    "train_test_split env (labelled_frame (load_breast_cancer env)) (3 / 10)
             (emit (LoadBreastCancer False) w) = ((train_df, test_df), w2)"
    by (metis prod.exhaust)
  from prepare_data_eq [OF this] show ?thesis by blast
qed


section \<open>The toy run\<close>

lemma toy_labelled_frame:
  "labelled_frame toy_bunch =
     \<lparr>index = [0, 1, 2, 3],
      columns = [(''mean radius'', [FloatV 17.99, FloatV 20.57, FloatV 19.69, FloatV 11.42]),
                 (''mean texture'', [FloatV 10.38, FloatV 17.77, FloatV 21.25, FloatV 20.38]),
                 (''target'', [IntV 0, IntV 0, IntV 0, IntV 1]),
                 (''categorical_column'', [StrV ''A'', StrV ''B'', StrV ''A'', StrV ''B''])]\<rparr>"
  by (simp add: labelled_frame_def toy_bunch_def DataFrame_def setitem_def column_names_def
        len_def Let_def eval_nat_numeral)

lemma toy_split:
  "train_test_split (toy_env cuml) (labelled_frame (load_breast_cancer (toy_env cuml))) (3 / 10)
     (emit (LoadBreastCancer False) toy_world) =
   ((toy_train_df, toy_valid_df), \<lparr>ext = 1, log = [LoadBreastCancer False, TrainTestSplit (3 / 10)]\<rparr>)"
  by (simp add: toy_env_def toy_labelled_frame train_test_split_def iloc_def emit_def
        toy_world_def toy_train_df_def toy_valid_df_def)

lemma toy_prepare_data:
  "prepare_data (toy_env cuml) toy_world =
     (Inr ([toy_train_df], [toy_valid_df], [toy_test_df]), toy_prepared)"
  by (simp add: prepare_data_eq [OF toy_split] emit_def toy_prepared_def)
     (simp add: toy_valid_df_def toy_test_df_def)


section \<open>The guard of \<open>train_sklearn\<close>\<close>

text \<open>
  C1. \<open>train_sklearn\<close> raises an error if and only if it is called with \<open>use_gpu\<close> true
  while \<open>cuMLRandomForestClassifier\<close> is \<open>None\<close>; then it raises the \<open>RuntimeError\<close> of the
  guard with the world as it found it: no data was prepared, no trainer was built, the
  log and the library state are unchanged.
\<close>

theorem train_sklearn_raises_iff:
  "((\<exists>e. fst (train_sklearn env num_cpus use_gpu w) = Inl e) \<longleftrightarrow>
      (use_gpu \<and> cuMLRandomForestClassifier env = None)) \<and>
   (use_gpu \<and> cuMLRandomForestClassifier env = None \<longrightarrow>
      train_sklearn env num_cpus use_gpu w =
        (Inl (RuntimeError ''cuML must be installed for GPU enabled sklearn estimators.''), w))"
proof (cases "use_gpu \<and> cuMLRandomForestClassifier env = None")
  case True
  then show ?thesis by (simp add: train_sklearn_def)
next
  case False
  obtain train valid test w1 where p: "prepare_data env w = (Inr (train, valid, test), w1)"
    using prepare_data_returns by blast
  have "\<exists>r w'. train_sklearn env num_cpus use_gpu w = (Inr r, w')"
    using False p
    by (cases use_gpu; cases "cuMLRandomForestClassifier env")
       (simp_all add: train_sklearn_def Let_def split_def)
  with False show ?thesis by auto
qed

theorem train_sklearn_raises_iff_witness:
  "train_sklearn (toy_env None) 2 True toy_world =
     (Inl (RuntimeError ''cuML must be installed for GPU enabled sklearn estimators.''), toy_world) \<and>
   (\<exists>e. fst (train_sklearn (toy_env None) 2 True toy_world) = Inl e) \<and>
   \<not> (\<exists>e. fst (train_sklearn (toy_env (Some CuMLRandomForestClassifier)) 2 True toy_world) = Inl e) \<and>
   \<not> (\<exists>e. fst (train_sklearn (toy_env None) 2 False toy_world) = Inl e)"
  using train_sklearn_raises_iff [of "toy_env None" 2 True toy_world]
    train_sklearn_raises_iff [of "toy_env (Some CuMLRandomForestClassifier)" 2 True toy_world]
    train_sklearn_raises_iff [of "toy_env None" 2 False toy_world]
  by (simp add: toy_env_def)

text \<open>
  C2. The guard is the only error of the example code: \<open>get_train_dataset\<close>,
  \<open>prepare_data\<close> and \<open>predict_sklearn\<close> return for every input (so does
  \<open>train_model\<close>), \<open>train_sklearn\<close> returns whenever \<open>use_gpu\<close> is false, and an error of
  \<open>train_sklearn\<close> is the \<open>RuntimeError\<close> of its guard, never the \<open>KeyError\<close> or the
  \<open>TypeError\<close>.
\<close>

theorem guard_is_the_only_raise:
  "(\<exists>ds w'. get_train_dataset env w = (Inr ds, w')) \<and>
   (\<exists>r w'. train_model env train_dataset wandb_project w = (Inr r, w')) \<and>
   (\<exists>d w'. prepare_data env w = (Inr d, w')) \<and>
   (\<exists>w'. predict_sklearn env result use_gpu w = (Inr (), w')) \<and>
   (\<exists>r w'. train_sklearn env num_cpus False w = (Inr r, w')) \<and>
   (case fst (train_sklearn env num_cpus use_gpu w) of
      Inl e \<Rightarrow> e = RuntimeError ''cuML must be installed for GPU enabled sklearn estimators.''
    | Inr r \<Rightarrow> True)"
proof -
  obtain train valid test w1 where p: "prepare_data env w = (Inr (train, valid, test), w1)"
    using prepare_data_returns by blast
  have 1: "\<exists>ds w'. get_train_dataset env w = (Inr ds, w')"
    by (simp add: get_train_dataset_def load_as_frame_def from_pandas_def Let_def)
  have 2: "\<exists>r w'. train_model env train_dataset wandb_project w = (Inr r, w')"
    by (simp add: train_model_def Let_def split_def)
  have 3: "\<exists>d w'. prepare_data env w = (Inr d, w')"
    using p by blast
  have 4: "\<exists>w'. predict_sklearn env result use_gpu w = (Inr (), w')"
    using p by (simp add: predict_sklearn_def Let_def split_def)
  have 5: "\<exists>r w'. train_sklearn env num_cpus False w = (Inr r, w')"
    using p by (simp add: train_sklearn_def Let_def split_def)
  have 6: "case fst (train_sklearn env num_cpus use_gpu w) of
      Inl e \<Rightarrow> e = RuntimeError ''cuML must be installed for GPU enabled sklearn estimators.''
    | Inr r \<Rightarrow> True"
    using p
    by (cases use_gpu; cases "cuMLRandomForestClassifier env")
       (simp_all add: train_sklearn_def Let_def split_def)
  from 1 2 3 4 5 6 show ?thesis by blast
qed

theorem guard_is_the_only_raise_witness:
  "fst (train_sklearn (toy_env None) 2 True toy_world) =
     Inl (RuntimeError ''cuML must be installed for GPU enabled sklearn estimators.'') \<and>
   fst (train_sklearn (toy_env None) 2 False toy_world) =
     Inr \<lparr>metrics = [(''fit_time'', 2.5)], checkpoint = Checkpoint 1\<rparr> \<and>
   fst (train_sklearn (toy_env (Some CuMLRandomForestClassifier)) 2 True toy_world) =
     Inr \<lparr>metrics = [(''fit_time'', 2.5)], checkpoint = Checkpoint 1\<rparr> \<and>
   fst (predict_sklearn (toy_env None) toy_result False toy_world) = Inr ()"
  using guard_is_the_only_raise [where env = "toy_env None" and w = toy_world
      and num_cpus = 2 and use_gpu = True]
  by (simp add: train_sklearn_def predict_sklearn_def toy_prepare_data Let_def)
     (simp add: fit_def predict_def toy_prepared_def toy_env_def Let_def)


section \<open>The manifests\<close>

text \<open>
  C3, as amended. Every \<^verbatim>\<open>py_test\<close> target has its \<^verbatim>\<open>srcs\<close> under \<^verbatim>\<open>examples/\<close> or under
  \<^verbatim>\<open>tests/\<close>: the nine targets of the examples section point at example scripts under
  \<^verbatim>\<open>examples/\<close>, the twelve targets of the tests section point at unit tests under
  \<^verbatim>\<open>tests/\<close> and not under \<^verbatim>\<open>examples/\<close>.
\<close>

theorem py_test_srcs_by_section:
  "(\<forall>t \<in> set py_tests. srcs_under ''examples/'' t \<or> srcs_under ''tests/'' t) \<and>
   (\<forall>t \<in> set examples_section. srcs_under ''examples/'' t) \<and>
   (\<forall>t \<in> set tests_section. srcs_under ''tests/'' t \<and> \<not> srcs_under ''examples/'' t) \<and>
   length examples_section = 9 \<and> length tests_section = 12"
  by (simp add: py_tests_def examples_section_def tests_section_def srcs_under_def)

theorem py_test_srcs_by_section_witness:
  "hd examples_section \<in> set examples_section \<and>
   srcs (hd examples_section) = [''examples/mlflow_fashion_mnist_example.py''] \<and>
   srcs_under ''examples/'' (hd examples_section) \<and>
   last tests_section \<in> set tests_section \<and>
   srcs (last tests_section) = [''tests/test_worker_group.py''] \<and>
   srcs_under ''tests/'' (last tests_section) \<and>
   \<not> srcs_under ''examples/'' (last tests_section)"
  using py_test_srcs_by_section
  by (simp add: examples_section_def tests_section_def)

text \<open>
  C3 as stated fails: the tenth target of the manifest, \<^verbatim>\<open>pytorch_pbt_failure\<close>, has its
  source under \<^verbatim>\<open>tests/\<close>.
\<close>

theorem py_tests_not_all_examples:
  "name (py_tests ! 9) = ''pytorch_pbt_failure'' \<and>
   srcs (py_tests ! 9) = [''tests/pytorch_pbt_failure.py''] \<and>
   \<not> srcs_under ''examples/'' (py_tests ! 9)"
  by (simp add: py_tests_def examples_section_def tests_section_def srcs_under_def)

text \<open>
  C4. The manifest has \<^verbatim>\<open>py_test\<close> targets with \<^verbatim>\<open>srcs\<close> under \<^verbatim>\<open>examples/\<close> and targets with
  \<^verbatim>\<open>srcs\<close> under \<^verbatim>\<open>tests/\<close>, and every \<^verbatim>\<open>py_test\<close> target depends on \<^verbatim>\<open>:train_lib\<close>.
\<close>

theorem manifest_wires_examples_and_tests:
  "(\<exists>t \<in> set py_tests. srcs_under ''examples/'' t) \<and>
   (\<exists>t \<in> set py_tests. srcs_under ''tests/'' t) \<and>
   (\<forall>t \<in> set py_tests. depends_on '':train_lib'' t)"
  by (simp add: py_tests_def examples_section_def tests_section_def srcs_under_def depends_on_def)

theorem manifest_wires_examples_and_tests_witness:
  "py_tests ! 5 \<in> set py_tests \<and> name (py_tests ! 5) = ''transformers_example'' \<and>
   deps (py_tests ! 5) = ['':train_lib''] \<and> depends_on '':train_lib'' (py_tests ! 5)"
  using manifest_wires_examples_and_tests
  by (simp add: py_tests_def examples_section_def tests_section_def)

text \<open>
  C7. The requirements manifest has entries for gym, pettingzoo, pybullet, recsim and
  onnx.
\<close>

theorem requirements_list_packages:
  "''gym'' \<in> set (packages requirements) \<and>
   ''pettingzoo'' \<in> set (packages requirements) \<and>
   ''pybullet'' \<in> set (packages requirements) \<and>
   ''recsim'' \<in> set (packages requirements) \<and>
   ''onnx'' \<in> set (packages requirements)"
  by (simp add: packages_def requirements_def List.map_filter_def)


section \<open>Training with the W\&B callback\<close>

text \<open>
  C5. For every train dataset and project name, \<open>train_model\<close> fits an XGBoost trainer on
  that dataset whose run configuration registers exactly one callback, the
  \<open>WandbLoggerCallback\<close> with the given project and \<open>save_checkpoints\<close> true; what
  \<open>train_model\<close> returns is the result of that \<open>fit\<close>, and the fit is its only call.
\<close>

theorem train_model_registers_wandb:
  "\<exists>trainer result w'.
     callbacks (run_config trainer) = [WandbLoggerCallback wandb_project True] \<and>
     datasets trainer = [(''train'', train_dataset)] \<and>
     fit env (XGBoostTrainer trainer) w = (result, w') \<and>
     train_model env train_dataset wandb_project w = (Inr result, w') \<and>
     log w' = log w @ [Fit (XGBoostTrainer trainer)]"
proof -
  define trainer where "trainer =
     \<lparr>scaling_config = [(''num_workers'', ConfInt 2)],
      label_column = ''target'',
      datasets = [(''train'', train_dataset)],
      params = [(''tree_method'', ConfStr ''auto'')],
      num_boost_round = 10,
      run_config = \<lparr>callbacks = [WandbLoggerCallback wandb_project True]\<rparr>\<rparr>"
  obtain result w' where f: "fit env (XGBoostTrainer trainer) w = (result, w')"
    by (cases "fit env (XGBoostTrainer trainer) w")
  have c: "callbacks (run_config trainer) = [WandbLoggerCallback wandb_project True]"
    by (simp add: trainer_def)
  have d: "datasets trainer = [(''train'', train_dataset)]"
    by (simp add: trainer_def)
  have t: "train_model env train_dataset wandb_project w = (Inr result, w')"
    using f by (simp add: train_model_def trainer_def)
  have l: "log w' = log w @ [Fit (XGBoostTrainer trainer)]"
    using f by (auto simp: fit_def log_emit split: prod.splits)
  from c d f t l show ?thesis by blast
qed

theorem train_model_registers_wandb_witness:
  "train_model (toy_env None) [toy_train_df] ''ray_air_example'' toy_world =
     (Inr \<lparr>metrics = [(''fit_time'', 2.5)], checkpoint = Checkpoint 0\<rparr>,
      \<lparr>ext = 1,
       log = [Fit (XGBoostTrainer
                \<lparr>scaling_config = [(''num_workers'', ConfInt 2)],
                 label_column = ''target'',
                 datasets = [(''train'', [toy_train_df])],
                 params = [(''tree_method'', ConfStr ''auto'')],
                 num_boost_round = 10,
                 run_config = \<lparr>callbacks = [WandbLoggerCallback ''ray_air_example'' True]\<rparr>\<rparr>)]\<rparr>)"
  using train_model_registers_wandb [of "''ray_air_example''" "[toy_train_df]" "toy_env None" toy_world]
  by (simp add: train_model_def fit_def emit_def toy_env_def toy_world_def Let_def)


section \<open>Batch prediction\<close>

text \<open>
  C6. For every training result, \<open>predict_sklearn\<close> builds its predictor from the
  result's checkpoint with \<open>from_checkpoint\<close> and applies it to the test dataset of its
  own call of \<open>prepare_data\<close>; nothing else of the result is used: replacing the rest of
  the result changes nothing.
\<close>

theorem predict_sklearn_uses_checkpoint:
  "(\<exists>train valid test w1 preds w2.
      prepare_data env w = (Inr (train, valid, test), w1) \<and>
      predict env (from_checkpoint (checkpoint result) SklearnPredictor) test (of_bool use_gpu) w1
        = (preds, w2) \<and>
      predict_sklearn env result use_gpu w =
        (Inr (), print (PredictedLabels (predicted_labels preds)) w2)) \<and>
   predict_sklearn env (result\<lparr>metrics := m\<rparr>) use_gpu w = predict_sklearn env result use_gpu w"
proof -
  obtain train valid test w1 where
    p: "prepare_data env w = (Inr (train, valid, test), w1)"
    using prepare_data_returns by blast
  obtain preds w2 where
    q: "predict env (from_checkpoint (checkpoint result) SklearnPredictor) test (of_bool use_gpu) w1
        = (preds, w2)"
    by (metis prod.exhaust)
  have r: "predict_sklearn env result use_gpu w =
        (Inr (), print (PredictedLabels (predicted_labels preds)) w2)"
    using p q by (simp add: predict_sklearn_def)
  have s: "predict_sklearn env (result\<lparr>metrics := m\<rparr>) use_gpu w = predict_sklearn env result use_gpu w"
    using p by (simp add: predict_sklearn_def)
  from p q r s show ?thesis by blast
qed

theorem predict_sklearn_uses_checkpoint_witness:
  "predict_sklearn (toy_env None) (toy_result\<lparr>metrics := [(''fit_time'', 1)]\<rparr>) False toy_world =
     predict_sklearn (toy_env None) toy_result False toy_world \<and>
   checkpoint toy_result = Checkpoint 7 \<and>
   (\<exists>w'. predict_sklearn (toy_env None) toy_result False toy_world = (Inr (), w') \<and>
      log w' ! 5 = Predict (from_checkpoint (Checkpoint 7) SklearnPredictor) [toy_test_df] 0
          [\<lparr>index = [0], columns = [(''predictions'', [0.9])]\<rparr>,
           \<lparr>index = [1], columns = [(''predictions'', [0.5])]\<rparr>])"
  using predict_sklearn_uses_checkpoint [of "toy_env None" toy_world toy_result False "[(''fit_time'', 1)]"]
  by (simp add: predict_sklearn_def toy_prepare_data Let_def)
     (simp add: predict_def print_def emit_def toy_env_def toy_prepared_def toy_result_def)

text \<open>
  C10. Whatever real-valued dataset the batch predictor returns, \<open>predict_sklearn\<close> ends
  with the predictor's call and the print of the label table; the table has the labels
  and shape of the predictions put together, each entry is 1 where the prediction is
  strictly greater than 0.5 and 0 otherwise, so that only 0 and 1 occur.
\<close>

theorem printed_labels_are_thresholded:
  fixes env :: "'s environment"
  shows "\<exists>(w1 :: 's world) bp test preds.
     log (snd (predict_sklearn env result use_gpu w)) =
       log w1 @ [Predict bp test (of_bool use_gpu) preds,
                 Print (PredictedLabels (predicted_labels preds))] \<and>
     index (predicted_labels preds) = index (to_pandas preds) \<and>
     column_names (predicted_labels preds) = column_names (to_pandas preds) \<and>
     entries (predicted_labels preds) =
       map (\<lambda>x. if x > 1 / 2 then 1 else 0) (entries (to_pandas preds)) \<and>
     set (entries (predicted_labels preds)) \<subseteq> {0, 1}"
proof -
  obtain train valid test w1 where
    p: "prepare_data env w = (Inr (train, valid, test), w1)"
    using prepare_data_returns by blast
  define bp where "bp = from_checkpoint (checkpoint result) SklearnPredictor"
  obtain preds w2 where q: "predict env bp test (of_bool use_gpu) w1 = (preds, w2)"
    by (metis prod.exhaust)
  have l2: "log w2 = log w1 @ [Predict bp test (of_bool use_gpu) preds]"
    using q by (auto simp: predict_def log_emit split: prod.splits)
  have 1: "log (snd (predict_sklearn env result use_gpu w)) =
       log w1 @ [Predict bp test (of_bool use_gpu) preds,
                 Print (PredictedLabels (predicted_labels preds))]"
    using p q l2 by (simp add: predict_sklearn_def bp_def print_def log_emit)
  have 2: "index (predicted_labels preds) = index (to_pandas preds)"
    by (simp add: predicted_labels_eq frame_map_def)
  have 3: "column_names (predicted_labels preds) = column_names (to_pandas preds)"
    by (simp add: predicted_labels_eq frame_map_def column_names_def comp_def split_def)
  have 4: "entries (predicted_labels preds) =
      map (\<lambda>x. if x > 1 / 2 then 1 else 0) (entries (to_pandas preds))"
    by (simp add: predicted_labels_eq entries_frame_map)
  have 5: "set (entries (predicted_labels preds)) \<subseteq> {0, 1}"
    unfolding 4 by auto
  show ?thesis
    by (intro exI conjI) (rule 1, rule 2, rule 3, rule 4, rule 5)
qed

theorem printed_labels_are_thresholded_witness:
  "log (snd (predict_sklearn (toy_env None) toy_result False toy_world)) =
     log toy_prepared @
       [Predict (from_checkpoint (Checkpoint 7) SklearnPredictor) [toy_test_df] 0
          [\<lparr>index = [0], columns = [(''predictions'', [0.9])]\<rparr>,
           \<lparr>index = [1], columns = [(''predictions'', [0.5])]\<rparr>],
        Print (PredictedLabels \<lparr>index = [0, 1], columns = [(''predictions'', [1, 0])]\<rparr>)] \<and>
   entries \<lparr>index = [0, 1 :: nat], columns = [(''predictions'', [1, 0 :: int])]\<rparr> = [1, 0]"
  using printed_labels_are_thresholded [of "toy_env None" toy_result False toy_world]
  by (simp add: predict_sklearn_def toy_prepare_data Let_def)
     (simp add: predict_def print_def emit_def toy_env_def toy_prepared_def toy_result_def
        predicted_labels_def map_batches_def gt_def astype_int_def frame_map_def
        append_rows_def entries_def)


section \<open>The datasets\<close>

text \<open>
  C8. For every split, the third dataset of \<open>prepare_data\<close> is the second one with exactly
  the \<^verbatim>\<open>"target"\<close> column removed: each is one frame, with the same row labels in the same
  order; the labels of the test frame are those of the validation frame other than
  \<^verbatim>\<open>"target"\<close>, which the validation frame has; every other column is the same in both.
\<close>

theorem test_dataset_is_valid_without_target:
  "\<exists>train valid_df test_df w'.
     prepare_data env w = (Inr (train, [valid_df], [test_df]), w') \<and>
     index test_df = index valid_df \<and>
     ''target'' \<in> set (column_names valid_df) \<and>
     column_names test_df = filter (\<lambda>c. c \<noteq> ''target'') (column_names valid_df) \<and>
     (\<forall>c. c \<noteq> ''target'' \<longrightarrow> column test_df c = column valid_df c)"
proof -
  obtain train_df test_df w2 where
    s: "train_test_split env (labelled_frame (load_breast_cancer env)) (3 / 10)
             (emit (LoadBreastCancer False) w) = ((train_df, test_df), w2)"
    by (metis prod.exhaust)
  define dropped where
    "dropped = test_df\<lparr>columns := filter (\<lambda>(k, ws). k \<noteq> ''target'') (columns test_df)\<rparr>"
  have 1: "prepare_data env w = (Inr ([train_df], [test_df], [dropped]),
      emit (FromPandas dropped) (emit (FromPandas test_df) (emit (FromPandas train_df) w2)))"
    using prepare_data_eq [OF s] by (simp add: dropped_def)
  have 2: "index dropped = index test_df"
    by (simp add: dropped_def)
  have 3: "''target'' \<in> set (column_names test_df)"
    using train_test_split_names(2) [OF s] target_in_labelled_frame by simp
  have 4: "column_names dropped = filter (\<lambda>c. c \<noteq> ''target'') (column_names test_df)"
    by (simp add: dropped_def column_names_def filter_map comp_def split_def)
  have 5: "\<forall>c. c \<noteq> ''target'' \<longrightarrow> column dropped c = column test_df c"
    by (simp add: dropped_def column_def column_filter_other)
  from 1 2 3 4 5 show ?thesis by blast
qed

theorem test_dataset_is_valid_without_target_witness:
  "prepare_data (toy_env None) toy_world =
     (Inr ([toy_train_df], [toy_valid_df], [toy_test_df]), toy_prepared) \<and>
   ''mean radius'' \<noteq> ''target'' \<and>
   column toy_test_df ''mean radius'' = column toy_valid_df ''mean radius'' \<and>
   column toy_test_df ''mean radius'' = Some [FloatV 19.69, FloatV 17.99] \<and>
   column toy_valid_df ''target'' = Some [IntV 0, IntV 0] \<and>
   column toy_test_df ''target'' = None"
  using test_dataset_is_valid_without_target [of "toy_env None" toy_world]
  by (simp add: toy_prepare_data)
     (simp add: toy_valid_df_def toy_test_df_def column_def)

text \<open>
  C9. \<open>get_train_dataset\<close> returns the loaded breast-cancer frame, whose feature columns
  are not labelled \<^verbatim>\<open>"target"\<close>, with one column added: the row labels are the same, the
  column labels are those of the loaded frame followed by \<^verbatim>\<open>"target"\<close>, every column of
  the loaded frame is there unchanged, and the \<^verbatim>\<open>"target"\<close> column is the raw label
  series.
\<close>

theorem get_train_dataset_adds_target:
  assumes "''target'' \<notin> set (column_names (data_frame (load_breast_cancer_as_frame env)))"
  shows "\<exists>df w'.
     get_train_dataset env w = (Inr [df], w') \<and>
     index df = index (data_frame (load_breast_cancer_as_frame env)) \<and>
     column_names df = column_names (data_frame (load_breast_cancer_as_frame env)) @ [''target''] \<and>
     (\<forall>c \<in> set (column_names (data_frame (load_breast_cancer_as_frame env))).
        column df c = column (data_frame (load_breast_cancer_as_frame env)) c) \<and>
     column df ''target'' = Some (target_series (load_breast_cancer_as_frame env))"
proof -
  define raw where "raw = data_frame (load_breast_cancer_as_frame env)"
  define df where "df = setitem raw ''target'' (target_series (load_breast_cancer_as_frame env))"
  have fresh: "''target'' \<notin> set (column_names raw)"
    using assms by (simp add: raw_def)
  have cols: "columns df = columns raw @ [(''target'', target_series (load_breast_cancer_as_frame env))]"
    using fresh by (simp add: df_def setitem_def)
  have 1: "get_train_dataset env w =
      (Inr [df], emit (FromPandas df) (emit (LoadBreastCancer True) w))"
    by (simp add: get_train_dataset_def load_as_frame_def from_pandas_def df_def raw_def Let_def)
  have 2: "index df = index raw"
    by (simp add: df_def setitem_def)
  have 3: "column_names df = column_names raw @ [''target'']"
    using cols by (simp add: column_names_def)
  have 4: "\<forall>c \<in> set (column_names raw). column df c = column raw c"
    using cols by (simp add: column_def column_names_def map_of_append_old del: map_of_append)
  have 5: "column df ''target'' = Some (target_series (load_breast_cancer_as_frame env))"
    using cols fresh
    by (simp add: column_def column_names_def map_of_append_fresh del: map_of_append)
  from 1 2 3 4 5 show ?thesis unfolding raw_def by blast
qed

theorem get_train_dataset_adds_target_witness:
  "''target'' \<notin> set (column_names (data_frame (load_breast_cancer_as_frame (toy_env None)))) \<and>
   fst (get_train_dataset (toy_env None) toy_world) =
     Inr [\<lparr>index = [0, 1, 2, 3],
           columns = [(''mean radius'', [FloatV 17.99, FloatV 20.57, FloatV 19.69, FloatV 11.42]),
                      (''mean texture'', [FloatV 10.38, FloatV 17.77, FloatV 21.25, FloatV 20.38]),
                      (''target'', [IntV 0, IntV 0, IntV 0, IntV 1])]\<rparr>] \<and>
   ''mean radius'' \<in> set (column_names (data_frame (load_breast_cancer_as_frame (toy_env None)))) \<and>
   column (data_frame (load_breast_cancer_as_frame (toy_env None))) ''mean radius'' =
     Some [FloatV 17.99, FloatV 20.57, FloatV 19.69, FloatV 11.42]"
  using get_train_dataset_adds_target [of "toy_env None" toy_world]
  by (simp add: get_train_dataset_def load_as_frame_def from_pandas_def toy_env_def
        toy_bunch_def DataFrame_def setitem_def column_names_def column_def Let_def
        eval_nat_numeral)

end
